theory Spec2Isabelle
  imports Complex_Main
begin

section \<open>The Agua IOT climate adapter (custom\_components/aguaiot/climate.py)\<close>

text \<open>
  The adapter class \<^verbatim>\<open>AguaIOTHeatingDevice\<close> holds a reference to one device handle of the
  vendor library \<^verbatim>\<open>py_agua_iot\<close>. Its properties read fields of the handle; its commands
  call the handle and log the vendor errors they catch. The handle, the logger and the
  host framework's constants are outside the repository's source file, so the handle is
  a record of the fields the adapter reads, its behaviour is a parameter, and the logger
  is a list of the records written to it.
\<close>

subsection \<open>Python values the adapter handles\<close>

text \<open>
  A text the adapter passes on or compares (a name, a mode, a message) is a \<open>string\<close>.
  The argument of \<open>set_fan_mode\<close> is inspected character by character, so it is a list
  of Unicode code points; \<open>codepoints\<close> writes such a list from a literal.
\<close>

type_synonym pystr = "nat list"

definition codepoints :: "string \<Rightarrow> pystr" where
  "codepoints s = map of_char s"

text \<open>Exceptions: the class and the message (\<^verbatim>\<open>str(err)\<close>).\<close>

datatype exn_class = AguaIOTError | UnauthorizedError | ConnectionError | ValueError
  | OtherException string

datatype exn = Exn (cls: exn_class) (msg: string)

text \<open>
  Modelled from the spec: the class hierarchy of the vendor library's errors, which is
  not in the repository (the source imports \<^verbatim>\<open>Error as AguaIOTError\<close>,
  \<^verbatim>\<open>UnauthorizedError\<close> and \<^verbatim>\<open>ConnectionError\<close> from \<^verbatim>\<open>py_agua_iot\<close>). The spec names
  an authorization error, a connectivity error and a generic base error: the first two
  are subclasses of the third. \<open>isinstance e c\<close> is the test an \<^verbatim>\<open>except c\<close> clause makes.
\<close>

definition isinstance :: "exn \<Rightarrow> exn_class \<Rightarrow> bool" where
  "isinstance e c = (cls e = c \<or>
     (c = AguaIOTError \<and> (cls e = UnauthorizedError \<or> cls e = ConnectionError)))"

text \<open>
  What \<^verbatim>\<open>str.isdigit\<close> and \<^verbatim>\<open>int\<close> do depends on the interpreter that runs the adapter:
  \<^item> its Unicode database, which classes a character as a decimal digit (with its value),
    as a digit that is not a decimal (a superscript two, say) or as neither;
  \<^item> its limit on the number of digits \<^verbatim>\<open>int\<close> converts
    (\<^verbatim>\<open>sys.get_int_max_str_digits()\<close>: 4300 by default, 0 when the limit is disabled or
    the interpreter has none);
  \<^item> the text of the \<^verbatim>\<open>ValueError\<close> that \<^verbatim>\<open>int\<close> raises for an argument.

  The interpreter is a parameter of the model. The class of an ASCII character is the
  same in every version of the database and is written out below; the table is consulted
  from code point 128 on.
\<close>

datatype char_class = Decimal nat | Digit | Other

record interpreter =
  unicode_class :: "nat \<Rightarrow> char_class"
  int_max_str_digits :: nat
  int_error_text :: "pystr \<Rightarrow> string"

definition ascii_digit :: "nat \<Rightarrow> bool" where
  "ascii_digit c = (48 \<le> c \<and> c \<le> 57)"

text \<open>
  \<^verbatim>\<open>str.isdigit\<close> is true of a non-empty string all of whose characters are digits,
  decimal or not.
\<close>

definition isdigit_char :: "interpreter \<Rightarrow> nat \<Rightarrow> bool" where
  "isdigit_char py c = (if c < 128 then ascii_digit c else unicode_class py c \<noteq> Other)"

definition isdigit :: "interpreter \<Rightarrow> pystr \<Rightarrow> bool" where
  "isdigit py s = (s \<noteq> [] \<and> list_all (isdigit_char py) s)"

text \<open>
  \<^verbatim>\<open>int(s)\<close> on a string that passed \<^verbatim>\<open>isdigit\<close>: the value of its digits, read in base
  ten, when every character is a decimal digit and the digits are not more than the
  limit allows; \<^verbatim>\<open>ValueError\<close> otherwise. The limit applies to strings of more than 640
  digits, leading zeros counted. On strings that do not pass \<^verbatim>\<open>isdigit\<close> Python's
  \<^verbatim>\<open>int\<close> also reads signs, blanks and underscores; the adapter never passes it one.
\<close>

definition decimal_digit :: "interpreter \<Rightarrow> nat \<Rightarrow> nat option" where
  "decimal_digit py c =
     (if c < 128 then (if ascii_digit c then Some (c - 48) else None)
      else (case unicode_class py c of Decimal d \<Rightarrow> Some d | Digit \<Rightarrow> None | Other \<Rightarrow> None))"

definition decimal_string :: "interpreter \<Rightarrow> pystr \<Rightarrow> bool" where
  "decimal_string py s = (s \<noteq> [] \<and> list_all (\<lambda>c. decimal_digit py c \<noteq> None) s)"

definition digit_value :: "interpreter \<Rightarrow> nat \<Rightarrow> int" where
  "digit_value py c = (case decimal_digit py c of Some d \<Rightarrow> int d | None \<Rightarrow> 0)"

definition decimal_value :: "interpreter \<Rightarrow> pystr \<Rightarrow> int" where
  "decimal_value py s = foldl (\<lambda>acc c. 10 * acc + digit_value py c) 0 s"

definition exceeds_limit :: "interpreter \<Rightarrow> pystr \<Rightarrow> bool" where
  "exceeds_limit py s =
     (640 < length s \<and> 0 < int_max_str_digits py \<and> int_max_str_digits py < length s)"

definition py_int :: "interpreter \<Rightarrow> pystr \<Rightarrow> exn + int" where
  "py_int py s =
     (if decimal_string py s \<and> \<not> exceeds_limit py s then Inr (decimal_value py s)
      else Inl (Exn ValueError (int_error_text py s)))"

text \<open>\<^verbatim>\<open>str(x)\<close> of an integer: its decimal digits, after a minus sign when it is negative.\<close>

definition digit_char :: "nat \<Rightarrow> char" where
  "digit_char n = char_of (48 + n)"

function str_nat :: "nat \<Rightarrow> string" where
  "str_nat n = (if n < 10 then [digit_char n] else str_nat (n div 10) @ [digit_char (n mod 10)])"
  by pat_completeness auto
termination
  by (relation "measure (\<lambda>n. n)") auto

definition py_str :: "int \<Rightarrow> string" where
  "py_str i = (if i < 0 then CHR ''-'' # str_nat (nat (- i)) else str_nat (nat i))"

text \<open>\<^verbatim>\<open>range(a, b)\<close>, as the list of the values a \<^verbatim>\<open>for\<close> loop takes from it.\<close>

function py_range :: "int \<Rightarrow> int \<Rightarrow> int list" where
  "py_range a b = (if a < b then a # py_range (a + 1) b else [])"
  by pat_completeness auto
termination
  by (relation "measure (\<lambda>(a, b). nat (b - a))") auto

subsection \<open>The device handle\<close>

record device =
  id_device :: string
  name :: string
  name_product :: string
  air_temperature :: "real option"
  water_temperature :: "real option"
  gas_temperature :: "real option"
  set_air_temperature :: "real option"
  set_water_temperature :: "real option"
  status :: int
  status_translated :: string
  alarms :: string
  real_power :: int
  set_power :: int
  min_power :: int
  max_power :: int
  min_temp :: real
  max_temp :: real

text \<open>
  What the adapter asks of the handle: the two remote actions, the refresh, and the
  three assignments to a setpoint (property setters of the handle, which send the value).
\<close>

datatype call = TurnOn | TurnOff | Update
  | SetAirTemperature real | SetWaterTemperature real | SetPower int

text \<open>
  The vendor library's behaviour is a parameter: for the handle's fields and a call, the
  fields afterwards and the exception raised, if any.
\<close>

type_synonym handle = "device \<Rightarrow> call \<Rightarrow> device \<times> exn option"

text \<open>A record written by \<^verbatim>\<open>_LOGGER.error(fmt, *args)\<close>: the format and its arguments.\<close>

datatype log_record = LogError string "string list"

text \<open>
  The state the adapter's methods run in: the handle's fields, the calls made to the
  handle so far and the records logged so far.
\<close>

record world =
  dev :: device
  calls :: "call list"
  logged :: "log_record list"

datatype 'a outcome = Returned 'a | Raised exn

definition invoke :: "handle \<Rightarrow> call \<Rightarrow> world \<Rightarrow> exn option \<times> world" where
  "invoke h c w =
     (case h (dev w) c of (d', r) \<Rightarrow> (r, w\<lparr>dev := d', calls := calls w @ [c]\<rparr>))"

definition log_error :: "string \<Rightarrow> string list \<Rightarrow> world \<Rightarrow> world" where
  "log_error fmt args w = w\<lparr>logged := logged w @ [LogError fmt args]\<rparr>"

subsection \<open>Constants of the host framework\<close>

definition HVAC_MODE_HEAT :: string where "HVAC_MODE_HEAT = ''heat''"
definition HVAC_MODE_OFF :: string where "HVAC_MODE_OFF = ''off''"
definition CURRENT_HVAC_IDLE :: string where "CURRENT_HVAC_IDLE = ''idle''"
definition ATTR_TEMPERATURE :: string where "ATTR_TEMPERATURE = ''temperature''"

subsection \<open>Properties\<close>

definition current_temperature :: "device \<Rightarrow> real option" where
  "current_temperature d =
     (let temp = air_temperature d in
      if temp = None then water_temperature d else temp)"

definition target_temperature :: "device \<Rightarrow> real option" where
  "target_temperature d =
     (let set_temp = set_air_temperature d in
      if set_temp = None then set_water_temperature d else set_temp)"

definition hvac_mode :: "device \<Rightarrow> string" where
  "hvac_mode d = (if status d \<notin> set [0, 6] then HVAC_MODE_HEAT else HVAC_MODE_OFF)"

definition hvac_modes :: "string list" where
  "hvac_modes = [HVAC_MODE_HEAT, HVAC_MODE_OFF]"

definition fan_mode :: "device \<Rightarrow> string" where
  "fan_mode d = py_str (set_power d)"

definition fan_modes :: "device \<Rightarrow> string list" where
  "fan_modes d =
     fold (\<lambda>x acc. acc @ [py_str x]) (py_range (min_power d) (max_power d + 1)) []"

text \<open>
  \<^verbatim>\<open>CURRENT_HVAC_MAP_AGUA_HEAT\<close> is a dictionary of the repository's \<^verbatim>\<open>const.py\<close>, which is
  not among the sources: it is the parameter \<open>tbl\<close>. \<^verbatim>\<open>dict.get\<close> returns the value or
  \<^verbatim>\<open>None\<close>, so the result is an option.
\<close>

definition hvac_action :: "(string \<rightharpoonup> string) \<Rightarrow> device \<Rightarrow> string option" where
  "hvac_action tbl d =
     (if status_translated d \<in> dom tbl then tbl (status_translated d)
      else Some CURRENT_HVAC_IDLE)"

subsection \<open>Commands\<close>

definition turn_off :: "handle \<Rightarrow> world \<Rightarrow> unit outcome \<times> world" where
  "turn_off h w =
     (case invoke h TurnOff w of
        (None, w') \<Rightarrow> (Returned (), w')
      | (Some err, w') \<Rightarrow>
          if isinstance err AguaIOTError
          then (Returned (), log_error ''Failed to turn off device, error: %s'' [msg err] w')
          else (Raised err, w'))"

definition turn_on :: "handle \<Rightarrow> world \<Rightarrow> unit outcome \<times> world" where
  "turn_on h w =
     (case invoke h TurnOn w of
        (None, w') \<Rightarrow> (Returned (), w')
      | (Some err, w') \<Rightarrow>
          if isinstance err AguaIOTError
          then (Returned (), log_error ''Failed to turn on device, error: %s'' [msg err] w')
          else (Raised err, w'))"

text \<open>
  \<^verbatim>\<open>kwargs.get(ATTR_TEMPERATURE)\<close>: the keyword arguments are a dictionary whose values
  may be \<^verbatim>\<open>None\<close>; a missing key gives \<^verbatim>\<open>None\<close> too.
\<close>

definition kwargs_get :: "(string \<rightharpoonup> real option) \<Rightarrow> string \<Rightarrow> real option" where
  "kwargs_get kwargs k = (case kwargs k of None \<Rightarrow> None | Some v \<Rightarrow> v)"

definition set_temperature ::
  "handle \<Rightarrow> (string \<rightharpoonup> real option) \<Rightarrow> world \<Rightarrow> unit outcome \<times> world" where
  "set_temperature h kwargs w =
     (case kwargs_get kwargs ATTR_TEMPERATURE of
        None \<Rightarrow> (Returned (), w)
      | Some temperature \<Rightarrow>
          (case (if air_temperature (dev w) \<noteq> None
                 then invoke h (SetAirTemperature temperature) w
                 else if water_temperature (dev w) \<noteq> None
                 then invoke h (SetWaterTemperature temperature) w
                 else (None, w)) of
             (None, w') \<Rightarrow> (Returned (), w')
           | (Some err, w') \<Rightarrow>
               if isinstance err ValueError \<or> isinstance err AguaIOTError
               then (Returned (), log_error ''Failed to set temperature, error: %s'' [msg err] w')
               else (Raised err, w')))"

definition set_fan_mode ::
  "interpreter \<Rightarrow> handle \<Rightarrow> pystr option \<Rightarrow> world \<Rightarrow> unit outcome \<times> world" where
  "set_fan_mode py h fan_mode' w =
     (case fan_mode' of
        None \<Rightarrow> (Returned (), w)
      | Some s \<Rightarrow>
          if \<not> isdigit py s then (Returned (), w)
          else
            (case (case py_int py s of
                     Inl err \<Rightarrow> (Some err, w)
                   | Inr n \<Rightarrow> invoke h (SetPower n) w) of
               (None, w') \<Rightarrow> (Returned (), w')
             | (Some err, w') \<Rightarrow>
                 if isinstance err AguaIOTError
                 then (Returned (), log_error ''Failed to set fan mode, error: %s'' [msg err] w')
                 else (Raised err, w')))"

definition set_hvac_mode :: "handle \<Rightarrow> string \<Rightarrow> world \<Rightarrow> unit outcome \<times> world" where
  "set_hvac_mode h mode w =
     (if mode = HVAC_MODE_OFF then turn_off h w
      else if mode = HVAC_MODE_HEAT then turn_on h w
      else (Returned (), w))"

definition update :: "handle \<Rightarrow> world \<Rightarrow> bool outcome \<times> world" where
  "update h w =
     (case invoke h Update w of
        (None, w') \<Rightarrow> (Returned True, w')
      | (Some err, w') \<Rightarrow>
          if isinstance err UnauthorizedError
          then (Returned False,
                log_error ''Wrong credentials for device %s (%s)''
                  [name (dev w'), id_device (dev w')] w')
          else if isinstance err ConnectionError
          then (Returned False, log_error ''Connection to Agua IOT not possible'' [] w')
          else if isinstance err AguaIOTError
          then (Returned False,
                log_error ''Failed to update %s (%s), error: %s''
                  [name (dev w'), id_device (dev w'), msg err] w')
          else (Raised err, w'))"

subsection \<open>Sample handles\<close>

text \<open>
  Concrete handles on which the theorems below are instantiated: a stove whose air and
  water readings are both set, a boiler with a water reading only, a device with neither
  reading, a handle that accepts every call (a setter stores the value, the actions and
  the refresh leave the fields as they are) and a handle that raises the same exception
  at every call.
\<close>

definition stove :: device where
  "stove = \<lparr>id_device = ''4711'', name = ''Stove'', name_product = ''P937'',
     air_temperature = Some 20, water_temperature = Some (43 / 2), gas_temperature = Some 110,
     set_air_temperature = Some 21, set_water_temperature = None,
     status = 0, status_translated = ''OFF'', alarms = [], real_power = 0,
     set_power = 2, min_power = 1, max_power = 3, min_temp = 7, max_temp = 30\<rparr>"

definition boiler :: device where
  "boiler = stove\<lparr>name := ''Boiler'', air_temperature := None, set_air_temperature := None,
     set_water_temperature := Some 60, status := 3, status_translated := ''ON''\<rparr>"

definition unplugged :: device where
  "unplugged = stove\<lparr>air_temperature := None, water_temperature := None\<rparr>"

definition accepting :: handle where
  "accepting d c =
     (case c of
        SetAirTemperature t \<Rightarrow> (d\<lparr>set_air_temperature := Some t\<rparr>, None)
      | SetWaterTemperature t \<Rightarrow> (d\<lparr>set_water_temperature := Some t\<rparr>, None)
      | SetPower n \<Rightarrow> (d\<lparr>set_power := n\<rparr>, None)
      | _ \<Rightarrow> (d, None))"

definition raising :: "exn \<Rightarrow> handle" where
  "raising e d c = (d, Some e)"

definition fresh :: "device \<Rightarrow> world" where
  "fresh d = \<lparr>dev = d, calls = [], logged = []\<rparr>"

text \<open>
  A concrete interpreter with CPython's default limit. Of the Unicode database it has the
  superscripts two, three and one (digits that are not decimals) and the Arabic-Indic
  digits (decimals, from code point 1632); its error texts are shortened.
\<close>

definition cpython :: interpreter where
  "cpython = \<lparr>unicode_class =
       (\<lambda>c. if c = 178 \<or> c = 179 \<or> c = 185 then Digit
            else if 1632 \<le> c \<and> c \<le> 1641 then Decimal (c - 1632) else Other),
     int_max_str_digits = 4300,
     int_error_text =
       (\<lambda>s. if 4300 < length s then ''Exceeds the limit (4300 digits) for integer string conversion''
            else ''invalid literal for int() with base 10'')\<rparr>"

section \<open>Python's \<open>str\<close>, \<open>int\<close> and \<open>range\<close>\<close>

text \<open>
  The recursive equations of \<open>str_nat\<close> and \<open>py_range\<close> are unfolded by hand, one call at
  a time.
\<close>

declare str_nat.simps [simp del] py_range.simps [simp del]

lemma py_range_upto: "py_range a b = [a..b - 1]"
proof (induction a b rule: py_range.induct)
  case (1 a b)
  show ?case
  proof (cases "a < b")
    case True
    with 1 have "py_range a b = a # [a + 1..b - 1]" by (simp add: py_range.simps [of a b])
    also from True have "\<dots> = [a..b - 1]" by (simp add: upto_rec1)
    finally show ?thesis .
  next
    case False
    then show ?thesis by (simp add: py_range.simps [of a b])
  qed
qed

lemma fold_append_map: "fold (\<lambda>x acc. acc @ [f x]) xs ys = ys @ map f xs"
  by (induction xs arbitrary: ys) simp_all

lemma of_char_digit_char: "n < 10 \<Longrightarrow> of_char (digit_char n) = 48 + n"
  by (simp add: digit_char_def)

lemma decimal_digit_digit_char: "n < 10 \<Longrightarrow> decimal_digit py (of_char (digit_char n)) = Some n"
  by (simp add: decimal_digit_def ascii_digit_def of_char_digit_char)

lemma digit_value_digit_char: "n < 10 \<Longrightarrow> digit_value py (of_char (digit_char n)) = int n"
  by (simp add: digit_value_def decimal_digit_digit_char)

lemma decimal_value_snoc:
  "decimal_value py (s @ [c]) = 10 * decimal_value py s + digit_value py c"
  by (simp add: decimal_value_def)

lemma decimal_string_snoc:
  "decimal_string py s \<Longrightarrow> decimal_digit py c \<noteq> None \<Longrightarrow> decimal_string py (s @ [c])"
  by (simp add: decimal_string_def)

lemma codepoints_snoc: "codepoints (s @ [c]) = codepoints s @ [of_char c]"
  by (simp add: codepoints_def)

lemma int_div_mod_10: "10 * int (n div 10) + int (n mod 10) = int n"
proof -
  have "int n = int (10 * (n div 10) + n mod 10)" by simp
  also have "\<dots> = 10 * int (n div 10) + int (n mod 10)"
    by (simp only: of_nat_add of_nat_mult of_nat_numeral)
  finally show ?thesis by simp
qed

text \<open>The digits \<open>str\<close> writes are a decimal string, and its value is the number written.\<close>

lemma str_nat_decimal:
  "decimal_string py (codepoints (str_nat n)) \<and>
   decimal_value py (codepoints (str_nat n)) = int n"
proof (induction n rule: str_nat.induct)
  case (1 n)
  show ?case
  proof (cases "n < 10")
    case True
    then have "str_nat n = [digit_char n]" by (simp add: str_nat.simps [of n])
    with True show ?thesis
      by (simp add: codepoints_def decimal_string_def decimal_value_def
          decimal_digit_digit_char digit_value_digit_char)
  next
    case False
    with 1 have ih: "decimal_string py (codepoints (str_nat (n div 10)))"
      "decimal_value py (codepoints (str_nat (n div 10))) = int (n div 10)"
      by simp_all
    have m: "n mod 10 < 10" by simp
    have d: "decimal_digit py (of_char (digit_char (n mod 10))) \<noteq> None"
      using decimal_digit_digit_char [OF m, of py] by simp
    from False have eq: "codepoints (str_nat n) =
        codepoints (str_nat (n div 10)) @ [of_char (digit_char (n mod 10))]"
      by (simp add: str_nat.simps [of n] codepoints_snoc)
    have "decimal_string py (codepoints (str_nat n))"
      unfolding eq by (rule decimal_string_snoc [OF ih(1) d])
    moreover have "decimal_value py (codepoints (str_nat n)) = int n"
      unfolding eq decimal_value_snoc ih(2) digit_value_digit_char [OF m]
      by (rule int_div_mod_10)
    ultimately show ?thesis by simp
  qed
qed

text \<open>
  \<open>int\<close> reads back what \<open>str\<close> wrote of a non-negative integer, unless the digits are
  more than the interpreter's limit allows.
\<close>

lemma py_int_py_str:
  "0 \<le> i \<Longrightarrow> \<not> exceeds_limit py (codepoints (py_str i)) \<Longrightarrow>
   py_int py (codepoints (py_str i)) = Inr i"
  using str_nat_decimal [of py "nat i"] by (simp add: py_int_def py_str_def)

lemma decimal_digit_isdigit_char: "decimal_digit py c \<noteq> None \<Longrightarrow> isdigit_char py c"
  by (auto simp: decimal_digit_def isdigit_char_def split: if_splits char_class.splits)

lemma decimal_string_isdigit: "decimal_string py s \<Longrightarrow> isdigit py s"
  by (auto simp: decimal_string_def isdigit_def list_all_iff decimal_digit_isdigit_char)

lemma py_str_1_to_3: "map py_str [1..3] = [''1'', ''2'', ''3'']"
  by code_simp

section \<open>Properties read from the handle\<close>

text \<open>
  C2: \<open>current_temperature\<close> returns the handle's \<open>air_temperature\<close> whenever that is not
  \<open>None\<close>, also when \<open>water_temperature\<close> is set, and the handle's \<open>water_temperature\<close>
  when \<open>air_temperature\<close> is \<open>None\<close>.
\<close>

theorem current_temperature_prefers_air:
  "(air_temperature d \<noteq> None \<longrightarrow> current_temperature d = air_temperature d) \<and>
   (air_temperature d = None \<longrightarrow> current_temperature d = water_temperature d)"
  by (auto simp: current_temperature_def Let_def)

theorem current_temperature_prefers_air_witness:
  "current_temperature stove = Some 20 \<and> water_temperature stove = Some (43 / 2) \<and>
   current_temperature boiler = Some (43 / 2)"
  using current_temperature_prefers_air [of stove] current_temperature_prefers_air [of boiler]
  by (simp add: stove_def boiler_def)

text \<open>
  C5: \<open>hvac_mode\<close> returns the off mode exactly when the handle's \<open>status\<close> is 0 or 6, and
  the heat mode for every other status.
\<close>

theorem hvac_mode_off_iff:
  "(hvac_mode d = HVAC_MODE_OFF \<longleftrightarrow> status d = 0 \<or> status d = 6) \<and>
   (status d \<noteq> 0 \<and> status d \<noteq> 6 \<longrightarrow> hvac_mode d = HVAC_MODE_HEAT)"
  by (auto simp: hvac_mode_def HVAC_MODE_OFF_def HVAC_MODE_HEAT_def)

theorem hvac_mode_off_iff_witness:
  "hvac_mode stove = ''off'' \<and> hvac_mode (stove\<lparr>status := 6\<rparr>) = ''off'' \<and>
   hvac_mode boiler = ''heat''"
  using hvac_mode_off_iff [of stove] hvac_mode_off_iff [of "stove\<lparr>status := 6\<rparr>"]
    hvac_mode_off_iff [of boiler]
  by (simp add: stove_def boiler_def HVAC_MODE_OFF_def HVAC_MODE_HEAT_def)

text \<open>
  C9: \<open>hvac_action\<close> depends on the handle's \<open>status_translated\<close> only: it is the table's
  value when the translated status is a key of the table, and the idle state otherwise.
\<close>

theorem hvac_action_lookup:
  "(\<forall>v. tbl (status_translated d) = Some v \<longrightarrow> hvac_action tbl d = Some v) \<and>
   (tbl (status_translated d) = None \<longrightarrow> hvac_action tbl d = Some CURRENT_HVAC_IDLE) \<and>
   (status_translated d = status_translated d' \<longrightarrow> hvac_action tbl d = hvac_action tbl d')"
  by (auto simp: hvac_action_def)

theorem hvac_action_lookup_witness:
  "hvac_action [''ON'' \<mapsto> ''heating'', ''OFF'' \<mapsto> ''off''] boiler = Some ''heating'' \<and>
   hvac_action [''ON'' \<mapsto> ''heating''] stove = Some ''idle'' \<and>
   hvac_action [''ON'' \<mapsto> ''heating''] (boiler\<lparr>status := 0\<rparr>) =
     hvac_action [''ON'' \<mapsto> ''heating''] boiler"
  using hvac_action_lookup [of "[''ON'' \<mapsto> ''heating'', ''OFF'' \<mapsto> ''off'']" boiler boiler]
    hvac_action_lookup [of "[''ON'' \<mapsto> ''heating'']" stove stove]
    hvac_action_lookup [of "[''ON'' \<mapsto> ''heating'']" "boiler\<lparr>status := 0\<rparr>" boiler]
    hvac_action_lookup [of "[''ON'' \<mapsto> ''heating'']" boiler boiler]
  by (simp add: stove_def boiler_def CURRENT_HVAC_IDLE_def)

text \<open>
  C8: \<open>fan_modes\<close> is the list of the decimal strings of the integers from \<open>min_power\<close> to
  \<open>max_power\<close> inclusive, in increasing order; for \<open>min_power = 1\<close> and \<open>max_power = 3\<close> it
  is \<open>[''1'', ''2'', ''3'']\<close>.
\<close>

theorem fan_modes_range:
  "fan_modes d = map py_str [min_power d..max_power d] \<and>
   (min_power d = 1 \<and> max_power d = 3 \<longrightarrow> fan_modes d = [''1'', ''2'', ''3''])"
proof -
  have eq: "fan_modes d = map py_str [min_power d..max_power d]"
    by (simp add: fan_modes_def py_range_upto fold_append_map)
  show ?thesis
    unfolding eq using py_str_1_to_3 by simp
qed

theorem fan_modes_range_witness:
  "fan_modes stove = [''1'', ''2'', ''3''] \<and>
   fan_modes (stove\<lparr>min_power := 4, max_power := 3\<rparr>) = []"
proof -
  have "min_power stove = 1 \<and> max_power stove = 3"
    by (simp add: stove_def)
  with fan_modes_range [of stove] have "fan_modes stove = [''1'', ''2'', ''3'']"
    by blast
  moreover from fan_modes_range [of "stove\<lparr>min_power := 4, max_power := 3\<rparr>"]
  have "fan_modes (stove\<lparr>min_power := 4, max_power := 3\<rparr>) = []"
    by simp
  ultimately show ?thesis by simp
qed

section \<open>Commands\<close>


lemma calls_turn_off: "calls (snd (turn_off h w)) = calls w @ [TurnOff]"
  by (simp add: turn_off_def invoke_def log_error_def split: prod.splits option.splits)

lemma calls_turn_on: "calls (snd (turn_on h w)) = calls w @ [TurnOn]"
  by (simp add: turn_on_def invoke_def log_error_def split: prod.splits option.splits)

lemma turn_off_caught:
  "h (dev w) TurnOff = (d', Some e) \<Longrightarrow> isinstance e AguaIOTError \<Longrightarrow>
   turn_off h w = (Returned (),
     w\<lparr>dev := d', calls := calls w @ [TurnOff],
       logged := logged w @ [LogError ''Failed to turn off device, error: %s'' [msg e]]\<rparr>)"
  by (simp add: turn_off_def invoke_def log_error_def)

lemma turn_on_caught:
  "h (dev w) TurnOn = (d', Some e) \<Longrightarrow> isinstance e AguaIOTError \<Longrightarrow>
   turn_on h w = (Returned (),
     w\<lparr>dev := d', calls := calls w @ [TurnOn],
       logged := logged w @ [LogError ''Failed to turn on device, error: %s'' [msg e]]\<rparr>)"
  by (simp add: turn_on_def invoke_def log_error_def)

lemma turn_off_raised:
  "h (dev w) TurnOff = (d', Some e) \<Longrightarrow> \<not> isinstance e AguaIOTError \<Longrightarrow>
   turn_off h w = (Raised e, w\<lparr>dev := d', calls := calls w @ [TurnOff]\<rparr>)"
  by (simp add: turn_off_def invoke_def)

lemma turn_on_raised:
  "h (dev w) TurnOn = (d', Some e) \<Longrightarrow> \<not> isinstance e AguaIOTError \<Longrightarrow>
   turn_on h w = (Raised e, w\<lparr>dev := d', calls := calls w @ [TurnOn]\<rparr>)"
  by (simp add: turn_on_def invoke_def)

lemma set_hvac_mode_off: "set_hvac_mode h HVAC_MODE_OFF w = turn_off h w"
  by (simp add: set_hvac_mode_def)

lemma set_hvac_mode_heat: "set_hvac_mode h HVAC_MODE_HEAT w = turn_on h w"
  by (simp add: set_hvac_mode_def HVAC_MODE_OFF_def HVAC_MODE_HEAT_def)

lemma set_hvac_mode_off_raised:
  "h (dev w) TurnOff = (d', Some e) \<Longrightarrow> \<not> isinstance e AguaIOTError \<Longrightarrow>
   set_hvac_mode h HVAC_MODE_OFF w = (Raised e, w\<lparr>dev := d', calls := calls w @ [TurnOff]\<rparr>)"
  by (simp only: set_hvac_mode_off) (rule turn_off_raised)

lemma set_hvac_mode_heat_raised:
  "h (dev w) TurnOn = (d', Some e) \<Longrightarrow> \<not> isinstance e AguaIOTError \<Longrightarrow>
   set_hvac_mode h HVAC_MODE_HEAT w = (Raised e, w\<lparr>dev := d', calls := calls w @ [TurnOn]\<rparr>)"
  by (simp only: set_hvac_mode_heat) (rule turn_on_raised)

lemma set_temperature_air:
  "kwargs ATTR_TEMPERATURE = Some (Some t) \<Longrightarrow> air_temperature (dev w) \<noteq> None \<Longrightarrow>
   set_temperature h kwargs w =
     (case invoke h (SetAirTemperature t) w of
        (None, w') \<Rightarrow> (Returned (), w')
      | (Some err, w') \<Rightarrow>
          if isinstance err ValueError \<or> isinstance err AguaIOTError
          then (Returned (), log_error ''Failed to set temperature, error: %s'' [msg err] w')
          else (Raised err, w'))"
  by (simp add: set_temperature_def kwargs_get_def)

lemma set_temperature_water:
  "kwargs ATTR_TEMPERATURE = Some (Some t) \<Longrightarrow> air_temperature (dev w) = None \<Longrightarrow>
   water_temperature (dev w) \<noteq> None \<Longrightarrow>
   set_temperature h kwargs w =
     (case invoke h (SetWaterTemperature t) w of
        (None, w') \<Rightarrow> (Returned (), w')
      | (Some err, w') \<Rightarrow>
          if isinstance err ValueError \<or> isinstance err AguaIOTError
          then (Returned (), log_error ''Failed to set temperature, error: %s'' [msg err] w')
          else (Raised err, w'))"
  by (simp add: set_temperature_def kwargs_get_def)

lemma set_temperature_air_caught:
  "kwargs ATTR_TEMPERATURE = Some (Some t) \<Longrightarrow> air_temperature (dev w) \<noteq> None \<Longrightarrow>
   h (dev w) (SetAirTemperature t) = (d', Some e) \<Longrightarrow>
   isinstance e ValueError \<or> isinstance e AguaIOTError \<Longrightarrow>
   set_temperature h kwargs w = (Returned (),
     w\<lparr>dev := d', calls := calls w @ [SetAirTemperature t],
       logged := logged w @ [LogError ''Failed to set temperature, error: %s'' [msg e]]\<rparr>)"
  by (auto simp: set_temperature_air invoke_def log_error_def)

lemma set_temperature_water_caught:
  "kwargs ATTR_TEMPERATURE = Some (Some t) \<Longrightarrow> air_temperature (dev w) = None \<Longrightarrow>
   water_temperature (dev w) \<noteq> None \<Longrightarrow>
   h (dev w) (SetWaterTemperature t) = (d', Some e) \<Longrightarrow>
   isinstance e ValueError \<or> isinstance e AguaIOTError \<Longrightarrow>
   set_temperature h kwargs w = (Returned (),
     w\<lparr>dev := d', calls := calls w @ [SetWaterTemperature t],
       logged := logged w @ [LogError ''Failed to set temperature, error: %s'' [msg e]]\<rparr>)"
  by (auto simp: set_temperature_water invoke_def log_error_def)

lemma set_temperature_air_raised:
  "kwargs ATTR_TEMPERATURE = Some (Some t) \<Longrightarrow> air_temperature (dev w) \<noteq> None \<Longrightarrow>
   h (dev w) (SetAirTemperature t) = (d', Some e) \<Longrightarrow>
   \<not> isinstance e ValueError \<Longrightarrow> \<not> isinstance e AguaIOTError \<Longrightarrow>
   set_temperature h kwargs w =
     (Raised e, w\<lparr>dev := d', calls := calls w @ [SetAirTemperature t]\<rparr>)"
  by (simp add: set_temperature_air invoke_def)

lemma set_temperature_water_raised:
  "kwargs ATTR_TEMPERATURE = Some (Some t) \<Longrightarrow> air_temperature (dev w) = None \<Longrightarrow>
   water_temperature (dev w) \<noteq> None \<Longrightarrow>
   h (dev w) (SetWaterTemperature t) = (d', Some e) \<Longrightarrow>
   \<not> isinstance e ValueError \<Longrightarrow> \<not> isinstance e AguaIOTError \<Longrightarrow>
   set_temperature h kwargs w =
     (Raised e, w\<lparr>dev := d', calls := calls w @ [SetWaterTemperature t]\<rparr>)"
  by (simp add: set_temperature_water invoke_def)

lemma set_temperature_air_written:
  "kwargs ATTR_TEMPERATURE = Some (Some t) \<Longrightarrow> air_temperature (dev w) \<noteq> None \<Longrightarrow>
   calls (snd (set_temperature h kwargs w)) = calls w @ [SetAirTemperature t] \<and>
   dev (snd (set_temperature h kwargs w)) = fst (h (dev w) (SetAirTemperature t)) \<and>
   (\<forall>d'. h (dev w) (SetAirTemperature t) = (d', None) \<longrightarrow>
      set_temperature h kwargs w =
        (Returned (), w\<lparr>dev := d', calls := calls w @ [SetAirTemperature t]\<rparr>))"
  by (simp add: set_temperature_air invoke_def log_error_def split: prod.splits option.splits)

lemma set_temperature_water_written:
  "kwargs ATTR_TEMPERATURE = Some (Some t) \<Longrightarrow> air_temperature (dev w) = None \<Longrightarrow>
   water_temperature (dev w) \<noteq> None \<Longrightarrow>
   calls (snd (set_temperature h kwargs w)) = calls w @ [SetWaterTemperature t] \<and>
   dev (snd (set_temperature h kwargs w)) = fst (h (dev w) (SetWaterTemperature t)) \<and>
   (\<forall>d'. h (dev w) (SetWaterTemperature t) = (d', None) \<longrightarrow>
      set_temperature h kwargs w =
        (Returned (), w\<lparr>dev := d', calls := calls w @ [SetWaterTemperature t]\<rparr>))"
  by (simp add: set_temperature_water invoke_def log_error_def split: prod.splits option.splits)

lemma set_fan_mode_converted:
  "decimal_string py s \<Longrightarrow> \<not> exceeds_limit py s \<Longrightarrow>
   set_fan_mode py h (Some s) w =
     (case invoke h (SetPower (decimal_value py s)) w of
        (None, w') \<Rightarrow> (Returned (), w')
      | (Some err, w') \<Rightarrow>
          if isinstance err AguaIOTError
          then (Returned (), log_error ''Failed to set fan mode, error: %s'' [msg err] w')
          else (Raised err, w'))"
  by (simp add: set_fan_mode_def decimal_string_isdigit py_int_def)

lemma set_fan_mode_caught:
  "decimal_string py s \<Longrightarrow> \<not> exceeds_limit py s \<Longrightarrow>
   h (dev w) (SetPower (decimal_value py s)) = (d', Some e) \<Longrightarrow>
   isinstance e AguaIOTError \<Longrightarrow>
   set_fan_mode py h (Some s) w = (Returned (),
     w\<lparr>dev := d', calls := calls w @ [SetPower (decimal_value py s)],
       logged := logged w @ [LogError ''Failed to set fan mode, error: %s'' [msg e]]\<rparr>)"
  by (simp add: set_fan_mode_converted invoke_def log_error_def)

lemma set_fan_mode_written:
  "decimal_string py s \<Longrightarrow> \<not> exceeds_limit py s \<Longrightarrow>
   calls (snd (set_fan_mode py h (Some s) w)) = calls w @ [SetPower (decimal_value py s)] \<and>
   dev (snd (set_fan_mode py h (Some s) w)) = fst (h (dev w) (SetPower (decimal_value py s))) \<and>
   (\<forall>d'. h (dev w) (SetPower (decimal_value py s)) = (d', None) \<longrightarrow>
      set_fan_mode py h (Some s) w =
        (Returned (), w\<lparr>dev := d', calls := calls w @ [SetPower (decimal_value py s)]\<rparr>))"
  by (simp add: set_fan_mode_converted invoke_def log_error_def
      split: prod.splits option.splits)

lemma set_fan_mode_unwritten:
  "\<not> decimal_string py s \<or> exceeds_limit py s \<Longrightarrow> snd (set_fan_mode py h (Some s) w) = w"
  by (auto simp: set_fan_mode_def py_int_def isinstance_def)

lemma decimal_string_2:
  "decimal_string py (codepoints ''2'') \<and> decimal_value py (codepoints ''2'') = 2 \<and>
   \<not> exceeds_limit py (codepoints ''2'')"
  by (simp add: codepoints_def decimal_string_def decimal_value_def decimal_digit_def
      digit_value_def ascii_digit_def exceeds_limit_def)

lemma not_isdigit_abc: "\<not> isdigit py (codepoints ''abc'')"
  by (simp add: codepoints_def isdigit_def isdigit_char_def ascii_digit_def)

lemma update_caught:
  "h (dev w) Update = (d', Some e) \<Longrightarrow> isinstance e AguaIOTError \<Longrightarrow>
   \<exists>r. update h w = (Returned False,
     w\<lparr>dev := d', calls := calls w @ [Update], logged := logged w @ [r]\<rparr>)"
proof -
  assume a: "h (dev w) Update = (d', Some e)" and v: "isinstance e AguaIOTError"
  consider "isinstance e UnauthorizedError"
    | "\<not> isinstance e UnauthorizedError" "isinstance e ConnectionError"
    | "\<not> isinstance e UnauthorizedError" "\<not> isinstance e ConnectionError"
    by blast
  then show ?thesis
  proof cases
    case 1
    with a have "update h w = (Returned False,
        w\<lparr>dev := d', calls := calls w @ [Update], logged := logged w @
          [LogError ''Wrong credentials for device %s (%s)'' [name d', id_device d']]\<rparr>)"
      by (simp add: update_def invoke_def log_error_def)
    then show ?thesis by blast
  next
    case 2
    with a have "update h w = (Returned False,
        w\<lparr>dev := d', calls := calls w @ [Update], logged := logged w @
          [LogError ''Connection to Agua IOT not possible'' []]\<rparr>)"
      by (simp add: update_def invoke_def log_error_def)
    then show ?thesis by blast
  next
    case 3
    with a v have "update h w = (Returned False,
        w\<lparr>dev := d', calls := calls w @ [Update], logged := logged w @
          [LogError ''Failed to update %s (%s), error: %s'' [name d', id_device d', msg e]]\<rparr>)"
      by (simp add: update_def invoke_def log_error_def)
    then show ?thesis by blast
  qed
qed

lemma update_raised:
  "h (dev w) Update = (d', Some e) \<Longrightarrow> \<not> isinstance e AguaIOTError \<Longrightarrow>
   update h w = (Raised e, w\<lparr>dev := d', calls := calls w @ [Update]\<rparr>)"
  by (auto simp: update_def invoke_def isinstance_def)

text \<open>
  \<open>set_fan_mode\<close> names the vendor library's error class only. A \<^verbatim>\<open>ValueError\<close> raised in
  its \<^verbatim>\<open>try\<close> block, by the conversion (of a digit that is not a decimal, or of more
  digits than the limit allows) or by the setter, leaves the method, where
  \<open>set_temperature\<close> catches the setter's \<^verbatim>\<open>ValueError\<close>.
\<close>

lemma set_fan_mode_ValueError_of_setter:
  "decimal_string py s \<Longrightarrow> \<not> exceeds_limit py s \<Longrightarrow>
   h (dev w) (SetPower (decimal_value py s)) = (d', Some e) \<Longrightarrow> cls e = ValueError \<Longrightarrow>
   set_fan_mode py h (Some s) w =
     (Raised e, w\<lparr>dev := d', calls := calls w @ [SetPower (decimal_value py s)]\<rparr>)"
  by (simp add: set_fan_mode_converted invoke_def isinstance_def)

lemma set_fan_mode_ValueError_of_int:
  "isdigit py s \<Longrightarrow> \<not> decimal_string py s \<or> exceeds_limit py s \<Longrightarrow>
   set_fan_mode py h (Some s) w = (Raised (Exn ValueError (int_error_text py s)), w)"
  by (auto simp: set_fan_mode_def py_int_def isinstance_def)

text \<open>
  C10: when the handle's \<open>air_temperature\<close> and \<open>water_temperature\<close> are both \<open>None\<close>,
  \<open>set_temperature\<close> with a temperature makes no call to the handle, logs nothing and
  returns: neither setpoint is written and every field of the handle is as before.
\<close>

theorem set_temperature_without_sensor:
  "kwargs ATTR_TEMPERATURE = Some (Some t) \<and> air_temperature (dev w) = None \<and>
   water_temperature (dev w) = None \<longrightarrow>
   set_temperature h kwargs w = (Returned (), w)"
  by (simp add: set_temperature_def kwargs_get_def)

theorem set_temperature_without_sensor_witness:
  "set_temperature accepting [ATTR_TEMPERATURE \<mapsto> Some 22] (fresh unplugged) =
     (Returned (), fresh unplugged) \<and>
   set_temperature (raising (Exn ValueError ''out of range'')) [ATTR_TEMPERATURE \<mapsto> Some 22]
     (fresh unplugged) = (Returned (), fresh unplugged)"
  using set_temperature_without_sensor [of "[ATTR_TEMPERATURE \<mapsto> Some 22]" 22 "fresh unplugged" accepting]
    set_temperature_without_sensor [of "[ATTR_TEMPERATURE \<mapsto> Some 22]" 22 "fresh unplugged"
      "raising (Exn ValueError ''out of range'')"]
  by (simp add: unplugged_def fresh_def)

text \<open>
  C7: \<open>set_temperature\<close> does nothing when no temperature is given (the key is missing
  or its value is \<open>None\<close>). Given a temperature, it assigns it to the handle's
  \<open>set_air_temperature\<close> when the handle's \<open>air_temperature\<close> is not \<open>None\<close>, and to
  \<open>set_water_temperature\<close> when \<open>air_temperature\<close> is \<open>None\<close> and \<open>water_temperature\<close> is not:
  that setter of the handle runs once, with the temperature given, the handle is
  afterwards as the setter left it, and when the setter raises nothing the method returns
  and logs nothing.
\<close>

theorem set_temperature_target:
  "(kwargs ATTR_TEMPERATURE = None \<or> kwargs ATTR_TEMPERATURE = Some None \<longrightarrow>
      set_temperature h kwargs w = (Returned (), w)) \<and>
   (kwargs ATTR_TEMPERATURE = Some (Some t) \<and> air_temperature (dev w) \<noteq> None \<longrightarrow>
      calls (snd (set_temperature h kwargs w)) = calls w @ [SetAirTemperature t] \<and>
      dev (snd (set_temperature h kwargs w)) = fst (h (dev w) (SetAirTemperature t)) \<and>
      (\<forall>d'. h (dev w) (SetAirTemperature t) = (d', None) \<longrightarrow>
         set_temperature h kwargs w =
           (Returned (), w\<lparr>dev := d', calls := calls w @ [SetAirTemperature t]\<rparr>))) \<and>
   (kwargs ATTR_TEMPERATURE = Some (Some t) \<and> air_temperature (dev w) = None \<and>
    water_temperature (dev w) \<noteq> None \<longrightarrow>
      calls (snd (set_temperature h kwargs w)) = calls w @ [SetWaterTemperature t] \<and>
      dev (snd (set_temperature h kwargs w)) = fst (h (dev w) (SetWaterTemperature t)) \<and>
      (\<forall>d'. h (dev w) (SetWaterTemperature t) = (d', None) \<longrightarrow>
         set_temperature h kwargs w =
           (Returned (), w\<lparr>dev := d', calls := calls w @ [SetWaterTemperature t]\<rparr>)))"
proof -
  have absent: "kwargs ATTR_TEMPERATURE = None \<or> kwargs ATTR_TEMPERATURE = Some None \<longrightarrow>
      set_temperature h kwargs w = (Returned (), w)"
    by (auto simp: set_temperature_def kwargs_get_def)
  show ?thesis
    using absent set_temperature_air_written [of kwargs t w h]
      set_temperature_water_written [of kwargs t w h]
    by blast
qed

theorem set_temperature_target_witness:
  "set_temperature accepting Map.empty (fresh stove) = (Returned (), fresh stove) \<and>
   set_temperature accepting [ATTR_TEMPERATURE \<mapsto> None] (fresh stove) = (Returned (), fresh stove) \<and>
   set_temperature accepting [ATTR_TEMPERATURE \<mapsto> Some 22] (fresh stove) =
     (Returned (), \<lparr>dev = stove\<lparr>set_air_temperature := Some 22\<rparr>,
        calls = [SetAirTemperature 22], logged = []\<rparr>) \<and>
   set_temperature accepting [ATTR_TEMPERATURE \<mapsto> Some 55] (fresh boiler) =
     (Returned (), \<lparr>dev = boiler\<lparr>set_water_temperature := Some 55\<rparr>,
        calls = [SetWaterTemperature 55], logged = []\<rparr>)"
proof -
  have 1: "set_temperature accepting Map.empty (fresh stove) = (Returned (), fresh stove)"
    using set_temperature_target [where kwargs = Map.empty and h = accepting and w = "fresh stove"]
    by simp
  have 2: "set_temperature accepting [ATTR_TEMPERATURE \<mapsto> None] (fresh stove) =
      (Returned (), fresh stove)"
    using set_temperature_target [where kwargs = "[ATTR_TEMPERATURE \<mapsto> None]" and h = accepting
        and w = "fresh stove"]
    by simp
  have "[ATTR_TEMPERATURE \<mapsto> Some (22::real)] ATTR_TEMPERATURE = Some (Some 22) \<and>
      air_temperature (dev (fresh stove)) \<noteq> None \<and>
      accepting (dev (fresh stove)) (SetAirTemperature 22) =
        (stove\<lparr>set_air_temperature := Some 22\<rparr>, None)"
    by (simp add: accepting_def fresh_def stove_def)
  with set_temperature_target [where kwargs = "[ATTR_TEMPERATURE \<mapsto> Some 22]" and t = 22
      and h = accepting and w = "fresh stove"]
  have "set_temperature accepting [ATTR_TEMPERATURE \<mapsto> Some 22] (fresh stove) =
      (Returned (), (fresh stove)\<lparr>dev := stove\<lparr>set_air_temperature := Some 22\<rparr>,
         calls := calls (fresh stove) @ [SetAirTemperature 22]\<rparr>)"
    by blast
  then have 3: "set_temperature accepting [ATTR_TEMPERATURE \<mapsto> Some 22] (fresh stove) =
      (Returned (), \<lparr>dev = stove\<lparr>set_air_temperature := Some 22\<rparr>,
         calls = [SetAirTemperature 22], logged = []\<rparr>)"
    by (simp add: fresh_def)
  have "[ATTR_TEMPERATURE \<mapsto> Some (55::real)] ATTR_TEMPERATURE = Some (Some 55) \<and>
      air_temperature (dev (fresh boiler)) = None \<and>
      water_temperature (dev (fresh boiler)) \<noteq> None \<and>
      accepting (dev (fresh boiler)) (SetWaterTemperature 55) =
        (boiler\<lparr>set_water_temperature := Some 55\<rparr>, None)"
    by (simp add: accepting_def fresh_def boiler_def stove_def)
  with set_temperature_target [where kwargs = "[ATTR_TEMPERATURE \<mapsto> Some 55]" and t = 55
      and h = accepting and w = "fresh boiler"]
  have "set_temperature accepting [ATTR_TEMPERATURE \<mapsto> Some 55] (fresh boiler) =
      (Returned (), (fresh boiler)\<lparr>dev := boiler\<lparr>set_water_temperature := Some 55\<rparr>,
         calls := calls (fresh boiler) @ [SetWaterTemperature 55]\<rparr>)"
    by blast
  then have 4: "set_temperature accepting [ATTR_TEMPERATURE \<mapsto> Some 55] (fresh boiler) =
      (Returned (), \<lparr>dev = boiler\<lparr>set_water_temperature := Some 55\<rparr>,
         calls = [SetWaterTemperature 55], logged = []\<rparr>)"
    by (simp add: fresh_def)
  from 1 2 3 4 show ?thesis by simp
qed

text \<open>
  C3 claims that \<open>set_fan_mode\<close> writes the integer to \<open>set_power\<close> for every non-negative
  integer string. A string of 4301 digits is one, and an interpreter with the default
  limit of 4300 digits refuses to convert it: \<^verbatim>\<open>int\<close> raises \<^verbatim>\<open>ValueError\<close> and nothing is
  written.
\<close>

theorem long_digit_string_not_written:
  "decimal_string cpython (replicate 4301 49) \<and>
   fst (set_fan_mode cpython accepting (Some (replicate 4301 49)) (fresh stove)) =
     Raised (Exn ValueError (int_error_text cpython (replicate 4301 49))) \<and>
   snd (set_fan_mode cpython accepting (Some (replicate 4301 49)) (fresh stove)) = fresh stove"
proof -
  have ds: "decimal_string cpython (replicate 4301 49)"
    by (simp add: decimal_string_def list_all_iff decimal_digit_def ascii_digit_def)
  have ex: "exceeds_limit cpython (replicate 4301 49)"
    by (simp add: exceeds_limit_def cpython_def)
  from set_fan_mode_ValueError_of_int [OF decimal_string_isdigit [OF ds], of accepting "fresh stove"] ex
  have "set_fan_mode cpython accepting (Some (replicate 4301 49)) (fresh stove) =
      (Raised (Exn ValueError (int_error_text cpython (replicate 4301 49))), fresh stove)"
    by blast
  with ds show ?thesis by simp
qed

text \<open>
  C3, as amended: \<open>set_fan_mode\<close> returns at once, with the handle and the log as they
  are, when the value is \<open>None\<close> or a string that is empty or has a character that is not
  a digit (such as \<open>abc\<close>). It makes no call to the handle, so no write to \<open>set_power\<close>,
  and leaves the handle and the log as they are, whenever the string is not a non-empty
  sequence of decimal digits, or has more digits than the interpreter's limit on
  conversion allows. When the value is a non-empty sequence of decimal digits within that
  limit (such as \<open>2\<close>), the setter of the handle's \<open>set_power\<close> runs once with the integer
  the digits denote, the handle is afterwards as the setter left it, and when the setter
  raises nothing the method returns and logs nothing.
\<close>

theorem set_fan_mode_writes:
  "set_fan_mode py h None w = (Returned (), w) \<and>
   (\<not> isdigit py s \<longrightarrow> set_fan_mode py h (Some s) w = (Returned (), w)) \<and>
   (\<not> decimal_string py s \<or> exceeds_limit py s \<longrightarrow>
      snd (set_fan_mode py h (Some s) w) = w) \<and>
   (decimal_string py s \<and> \<not> exceeds_limit py s \<longrightarrow>
      calls (snd (set_fan_mode py h (Some s) w)) = calls w @ [SetPower (decimal_value py s)] \<and>
      dev (snd (set_fan_mode py h (Some s) w)) =
        fst (h (dev w) (SetPower (decimal_value py s))) \<and>
      (\<forall>d'. h (dev w) (SetPower (decimal_value py s)) = (d', None) \<longrightarrow>
         set_fan_mode py h (Some s) w =
           (Returned (), w\<lparr>dev := d', calls := calls w @ [SetPower (decimal_value py s)]\<rparr>))) \<and>
   set_fan_mode py h (Some (codepoints ''abc'')) w = (Returned (), w) \<and>
   calls (snd (set_fan_mode py h (Some (codepoints ''2'')) w)) = calls w @ [SetPower 2] \<and>
   dev (snd (set_fan_mode py h (Some (codepoints ''2'')) w)) = fst (h (dev w) (SetPower 2)) \<and>
   (\<forall>d'. h (dev w) (SetPower 2) = (d', None) \<longrightarrow>
      set_fan_mode py h (Some (codepoints ''2'')) w =
        (Returned (), w\<lparr>dev := d', calls := calls w @ [SetPower 2]\<rparr>))"
proof -
  have none: "set_fan_mode py h None w = (Returned (), w)"
    by (simp add: set_fan_mode_def)
  have nodigit: "\<not> isdigit py s \<longrightarrow> set_fan_mode py h (Some s) w = (Returned (), w)"
    by (simp add: set_fan_mode_def)
  have abc: "set_fan_mode py h (Some (codepoints ''abc'')) w = (Returned (), w)"
    by (simp add: set_fan_mode_def not_isdigit_abc)
  have two: "calls (snd (set_fan_mode py h (Some (codepoints ''2'')) w)) = calls w @ [SetPower 2] \<and>
      dev (snd (set_fan_mode py h (Some (codepoints ''2'')) w)) = fst (h (dev w) (SetPower 2)) \<and>
      (\<forall>d'. h (dev w) (SetPower 2) = (d', None) \<longrightarrow>
         set_fan_mode py h (Some (codepoints ''2'')) w =
           (Returned (), w\<lparr>dev := d', calls := calls w @ [SetPower 2]\<rparr>))"
    using set_fan_mode_written [of py "codepoints ''2''" h w] decimal_string_2 [of py] by simp
  show ?thesis
    using none nodigit abc two set_fan_mode_unwritten [of py s h w] set_fan_mode_written [of py s h w]
    by blast
qed

theorem set_fan_mode_writes_witness:
  "set_fan_mode cpython accepting (Some (codepoints ''3'')) (fresh stove) =
     (Returned (), \<lparr>dev = stove\<lparr>set_power := 3\<rparr>, calls = [SetPower 3], logged = []\<rparr>) \<and>
   set_fan_mode cpython accepting (Some [1635]) (fresh stove) =
     (Returned (), \<lparr>dev = stove\<lparr>set_power := 3\<rparr>, calls = [SetPower 3], logged = []\<rparr>) \<and>
   set_fan_mode cpython accepting (Some (codepoints ''2.5'')) (fresh stove) =
     (Returned (), fresh stove) \<and>
   snd (set_fan_mode cpython accepting (Some [178]) (fresh stove)) = fresh stove \<and>
   set_fan_mode cpython accepting (Some (codepoints ''abc'')) (fresh stove) =
     (Returned (), fresh stove) \<and>
   set_fan_mode cpython accepting None (fresh stove) = (Returned (), fresh stove)"
proof -
  have d3: "decimal_string cpython (codepoints ''3'') \<and>
      \<not> exceeds_limit cpython (codepoints ''3'') \<and> decimal_value cpython (codepoints ''3'') = 3"
    by (simp add: codepoints_def decimal_string_def decimal_value_def decimal_digit_def
        digit_value_def ascii_digit_def exceeds_limit_def)
  have a3: "decimal_string cpython [1635] \<and> \<not> exceeds_limit cpython [1635] \<and>
      decimal_value cpython [1635] = 3"
    by (simp add: decimal_string_def decimal_value_def decimal_digit_def digit_value_def
        exceeds_limit_def cpython_def)
  have n1: "\<not> isdigit cpython (codepoints ''2.5'')"
    by (simp add: codepoints_def isdigit_def isdigit_char_def ascii_digit_def)
  have n2: "\<not> decimal_string cpython [178]"
    by (simp add: decimal_string_def decimal_digit_def cpython_def)
  have acc: "accepting (dev (fresh stove)) (SetPower 3) = (stove\<lparr>set_power := 3\<rparr>, None)"
    by (simp add: accepting_def fresh_def)
  from set_fan_mode_writes [of cpython accepting "fresh stove" "codepoints ''3''"] d3 acc
  have "set_fan_mode cpython accepting (Some (codepoints ''3'')) (fresh stove) =
      (Returned (), (fresh stove)\<lparr>dev := stove\<lparr>set_power := 3\<rparr>,
         calls := calls (fresh stove) @ [SetPower 3]\<rparr>)"
    by simp
  then have 1: "set_fan_mode cpython accepting (Some (codepoints ''3'')) (fresh stove) =
      (Returned (), \<lparr>dev = stove\<lparr>set_power := 3\<rparr>, calls = [SetPower 3], logged = []\<rparr>)"
    by (simp add: fresh_def)
  from set_fan_mode_writes [of cpython accepting "fresh stove" "[1635]"] a3 acc
  have "set_fan_mode cpython accepting (Some [1635]) (fresh stove) =
      (Returned (), (fresh stove)\<lparr>dev := stove\<lparr>set_power := 3\<rparr>,
         calls := calls (fresh stove) @ [SetPower 3]\<rparr>)"
    by simp
  then have 2: "set_fan_mode cpython accepting (Some [1635]) (fresh stove) =
      (Returned (), \<lparr>dev = stove\<lparr>set_power := 3\<rparr>, calls = [SetPower 3], logged = []\<rparr>)"
    by (simp add: fresh_def)
  from set_fan_mode_writes [of cpython accepting "fresh stove" "codepoints ''2.5''"] n1
  have 3: "set_fan_mode cpython accepting (Some (codepoints ''2.5'')) (fresh stove) =
      (Returned (), fresh stove)"
    by simp
  from set_fan_mode_writes [of cpython accepting "fresh stove" "[178]"] n2
  have 4: "snd (set_fan_mode cpython accepting (Some [178]) (fresh stove)) = fresh stove"
    by simp
  from set_fan_mode_writes [of cpython accepting "fresh stove" "[178]"]
  have 5: "set_fan_mode cpython accepting (Some (codepoints ''abc'')) (fresh stove) =
      (Returned (), fresh stove)"
    and 6: "set_fan_mode cpython accepting None (fresh stove) = (Returned (), fresh stove)"
    by simp_all
  from 1 2 3 4 5 6 show ?thesis by simp
qed

text \<open>
  C6: \<open>set_hvac_mode\<close> runs \<open>turn_off\<close> when the mode is the off value and \<open>turn_on\<close> when
  it is the heat value, each calling the handle's action once; for any other mode it
  calls neither, logs nothing and returns.
\<close>

theorem set_hvac_mode_dispatch:
  "(mode = HVAC_MODE_OFF \<longrightarrow>
      set_hvac_mode h mode w = turn_off h w \<and>
      calls (snd (set_hvac_mode h mode w)) = calls w @ [TurnOff]) \<and>
   (mode = HVAC_MODE_HEAT \<longrightarrow>
      set_hvac_mode h mode w = turn_on h w \<and>
      calls (snd (set_hvac_mode h mode w)) = calls w @ [TurnOn]) \<and>
   (mode \<noteq> HVAC_MODE_OFF \<and> mode \<noteq> HVAC_MODE_HEAT \<longrightarrow>
      set_hvac_mode h mode w = (Returned (), w))"
  by (simp add: set_hvac_mode_def calls_turn_off calls_turn_on HVAC_MODE_OFF_def
      HVAC_MODE_HEAT_def)

theorem set_hvac_mode_dispatch_witness:
  "calls (snd (set_hvac_mode accepting ''off'' (fresh boiler))) = [TurnOff] \<and>
   calls (snd (set_hvac_mode accepting ''heat'' (fresh stove))) = [TurnOn] \<and>
   set_hvac_mode accepting ''cool'' (fresh stove) = (Returned (), fresh stove)"
proof -
  have c: "calls (fresh stove) = []" "calls (fresh boiler) = []"
    by (simp_all add: fresh_def)
  have "calls (snd (set_hvac_mode accepting HVAC_MODE_OFF (fresh boiler))) =
      calls (fresh boiler) @ [TurnOff]"
    using set_hvac_mode_dispatch [of HVAC_MODE_OFF accepting "fresh boiler"] by blast
  with c have "calls (snd (set_hvac_mode accepting ''off'' (fresh boiler))) = [TurnOff]"
    by (simp add: HVAC_MODE_OFF_def)
  moreover have "calls (snd (set_hvac_mode accepting HVAC_MODE_HEAT (fresh stove))) =
      calls (fresh stove) @ [TurnOn]"
    using set_hvac_mode_dispatch [of HVAC_MODE_HEAT accepting "fresh stove"] by blast
  with c have "calls (snd (set_hvac_mode accepting ''heat'' (fresh stove))) = [TurnOn]"
    by (simp add: HVAC_MODE_HEAT_def)
  moreover from set_hvac_mode_dispatch [of "''cool''" accepting "fresh stove"]
  have "set_hvac_mode accepting ''cool'' (fresh stove) = (Returned (), fresh stove)"
    by (simp add: HVAC_MODE_OFF_def HVAC_MODE_HEAT_def)
  ultimately show ?thesis by simp
qed



text \<open>
  C4 claims that no exception ever leaves an adapter method. The \<^verbatim>\<open>except\<close> clauses name
  the vendor library's error classes (and \<^verbatim>\<open>ValueError\<close> in \<open>set_temperature\<close>), so an
  exception of any other class raised by the handle leaves \<open>update\<close> and \<open>turn_off\<close>.
\<close>

theorem other_exception_propagates:
  "update (raising (Exn (OtherException ''KeyError'') ''status'')) (fresh stove) =
     (Raised (Exn (OtherException ''KeyError'') ''status''),
      \<lparr>dev = stove, calls = [Update], logged = []\<rparr>) \<and>
   turn_off (raising (Exn (OtherException ''KeyError'') ''status'')) (fresh stove) =
     (Raised (Exn (OtherException ''KeyError'') ''status''),
      \<lparr>dev = stove, calls = [TurnOff], logged = []\<rparr>)"
  by (simp add: update_def turn_off_def invoke_def raising_def fresh_def isinstance_def)

text \<open>
  C4, as amended: every vendor error (an authorization error, a connectivity error or any
  other error of the vendor library's base class) that the handle raises inside
  \<open>turn_on\<close>, \<open>turn_off\<close>, \<open>set_hvac_mode\<close>, \<open>set_temperature\<close>, \<open>set_fan_mode\<close> or \<open>update\<close>
  is caught there and logged in one record; the command then returns, and \<open>update\<close>
  returns \<open>False\<close>. \<open>set_temperature\<close> catches a \<^verbatim>\<open>ValueError\<close> of the setter in the same
  way. An exception the handle raises that is not a vendor error leaves \<open>turn_on\<close>,
  \<open>turn_off\<close>, \<open>set_hvac_mode\<close> and \<open>update\<close> as it was raised, with nothing logged; one
  that is neither a vendor error nor a \<^verbatim>\<open>ValueError\<close> leaves \<open>set_temperature\<close> in the
  same way.
\<close>

theorem adapter_exception_policy:
  "(isinstance e AguaIOTError \<longrightarrow>
     (h (dev w) TurnOff = (d', Some e) \<longrightarrow>
        turn_off h w = (Returned (),
          w\<lparr>dev := d', calls := calls w @ [TurnOff],
            logged := logged w @ [LogError ''Failed to turn off device, error: %s'' [msg e]]\<rparr>) \<and>
        set_hvac_mode h HVAC_MODE_OFF w = turn_off h w) \<and>
     (h (dev w) TurnOn = (d', Some e) \<longrightarrow>
        turn_on h w = (Returned (),
          w\<lparr>dev := d', calls := calls w @ [TurnOn],
            logged := logged w @ [LogError ''Failed to turn on device, error: %s'' [msg e]]\<rparr>) \<and>
        set_hvac_mode h HVAC_MODE_HEAT w = turn_on h w) \<and>
     (decimal_string py s \<and> \<not> exceeds_limit py s \<and>
      h (dev w) (SetPower (decimal_value py s)) = (d', Some e) \<longrightarrow>
        set_fan_mode py h (Some s) w = (Returned (),
          w\<lparr>dev := d', calls := calls w @ [SetPower (decimal_value py s)],
            logged := logged w @ [LogError ''Failed to set fan mode, error: %s'' [msg e]]\<rparr>)) \<and>
     (h (dev w) Update = (d', Some e) \<longrightarrow>
        (\<exists>r. update h w = (Returned False,
           w\<lparr>dev := d', calls := calls w @ [Update], logged := logged w @ [r]\<rparr>)))) \<and>
   (isinstance e ValueError \<or> isinstance e AguaIOTError \<longrightarrow>
     (kwargs ATTR_TEMPERATURE = Some (Some t) \<and> air_temperature (dev w) \<noteq> None \<and>
      h (dev w) (SetAirTemperature t) = (d', Some e) \<longrightarrow>
        set_temperature h kwargs w = (Returned (),
          w\<lparr>dev := d', calls := calls w @ [SetAirTemperature t],
            logged := logged w @ [LogError ''Failed to set temperature, error: %s'' [msg e]]\<rparr>)) \<and>
     (kwargs ATTR_TEMPERATURE = Some (Some t) \<and> air_temperature (dev w) = None \<and>
      water_temperature (dev w) \<noteq> None \<and>
      h (dev w) (SetWaterTemperature t) = (d', Some e) \<longrightarrow>
        set_temperature h kwargs w = (Returned (),
          w\<lparr>dev := d', calls := calls w @ [SetWaterTemperature t],
            logged := logged w @ [LogError ''Failed to set temperature, error: %s'' [msg e]]\<rparr>))) \<and>
   (\<not> isinstance e AguaIOTError \<longrightarrow>
     (h (dev w) TurnOff = (d', Some e) \<longrightarrow>
        turn_off h w = (Raised e, w\<lparr>dev := d', calls := calls w @ [TurnOff]\<rparr>) \<and>
        set_hvac_mode h HVAC_MODE_OFF w =
          (Raised e, w\<lparr>dev := d', calls := calls w @ [TurnOff]\<rparr>)) \<and>
     (h (dev w) TurnOn = (d', Some e) \<longrightarrow>
        turn_on h w = (Raised e, w\<lparr>dev := d', calls := calls w @ [TurnOn]\<rparr>) \<and>
        set_hvac_mode h HVAC_MODE_HEAT w =
          (Raised e, w\<lparr>dev := d', calls := calls w @ [TurnOn]\<rparr>)) \<and>
     (h (dev w) Update = (d', Some e) \<longrightarrow>
        update h w = (Raised e, w\<lparr>dev := d', calls := calls w @ [Update]\<rparr>))) \<and>
   (\<not> isinstance e ValueError \<and> \<not> isinstance e AguaIOTError \<longrightarrow>
     (kwargs ATTR_TEMPERATURE = Some (Some t) \<and> air_temperature (dev w) \<noteq> None \<and>
      h (dev w) (SetAirTemperature t) = (d', Some e) \<longrightarrow>
        set_temperature h kwargs w =
          (Raised e, w\<lparr>dev := d', calls := calls w @ [SetAirTemperature t]\<rparr>)) \<and>
     (kwargs ATTR_TEMPERATURE = Some (Some t) \<and> air_temperature (dev w) = None \<and>
      water_temperature (dev w) \<noteq> None \<and>
      h (dev w) (SetWaterTemperature t) = (d', Some e) \<longrightarrow>
        set_temperature h kwargs w =
          (Raised e, w\<lparr>dev := d', calls := calls w @ [SetWaterTemperature t]\<rparr>)))"
  by (intro conjI impI; (elim conjE)?;
      (rule turn_off_caught turn_on_caught set_hvac_mode_off set_hvac_mode_heat
         set_fan_mode_caught update_caught set_temperature_air_caught
         set_temperature_water_caught turn_off_raised turn_on_raised
         set_hvac_mode_off_raised set_hvac_mode_heat_raised update_raised
         set_temperature_air_raised set_temperature_water_raised; assumption))

theorem adapter_exception_policy_witness:
  "turn_off (raising (Exn ConnectionError ''timeout'')) (fresh stove) =
     (Returned (), \<lparr>dev = stove, calls = [TurnOff],
        logged = [LogError ''Failed to turn off device, error: %s'' [''timeout'']]\<rparr>) \<and>
   fst (update (raising (Exn ConnectionError ''timeout'')) (fresh stove)) = Returned False \<and>
   set_temperature (raising (Exn ValueError ''too hot'')) [ATTR_TEMPERATURE \<mapsto> Some 99]
       (fresh stove) =
     (Returned (), \<lparr>dev = stove, calls = [SetAirTemperature 99],
        logged = [LogError ''Failed to set temperature, error: %s'' [''too hot'']]\<rparr>) \<and>
   turn_on (raising (Exn (OtherException ''KeyError'') ''status'')) (fresh stove) =
     (Raised (Exn (OtherException ''KeyError'') ''status''),
      \<lparr>dev = stove, calls = [TurnOn], logged = []\<rparr>) \<and>
   set_hvac_mode (raising (Exn ValueError ''bad'')) HVAC_MODE_OFF (fresh stove) =
     (Raised (Exn ValueError ''bad''), \<lparr>dev = stove, calls = [TurnOff], logged = []\<rparr>)"
proof -
  let ?h = "raising (Exn ConnectionError ''timeout'')"
  let ?g = "raising (Exn ValueError ''too hot'')"
  let ?k = "raising (Exn (OtherException ''KeyError'') ''status'')"
  let ?b = "raising (Exn ValueError ''bad'')"
  note vendor = adapter_exception_policy [where e = "Exn ConnectionError ''timeout''"
      and h = ?h and w = "fresh stove" and d' = stove, THEN conjunct1, THEN mp]
  note temp = adapter_exception_policy [where e = "Exn ValueError ''too hot''" and h = ?g
      and w = "fresh stove" and d' = stove and kwargs = "[ATTR_TEMPERATURE \<mapsto> Some 99]"
      and t = 99, THEN conjunct2, THEN conjunct1, THEN mp]
  note other = adapter_exception_policy [where e = "Exn (OtherException ''KeyError'') ''status''"
      and h = ?k and w = "fresh stove" and d' = stove,
      THEN conjunct2, THEN conjunct2, THEN conjunct1, THEN mp]
  note bad = adapter_exception_policy [where e = "Exn ValueError ''bad''" and h = ?b
      and w = "fresh stove" and d' = stove,
      THEN conjunct2, THEN conjunct2, THEN conjunct1, THEN mp]
  have v: "isinstance (Exn ConnectionError ''timeout'') AguaIOTError"
    by (simp add: isinstance_def)
  have r1: "?h (dev (fresh stove)) TurnOff = (stove, Some (Exn ConnectionError ''timeout''))"
    by (simp add: raising_def fresh_def)
  have r2: "?h (dev (fresh stove)) Update = (stove, Some (Exn ConnectionError ''timeout''))"
    by (simp add: raising_def fresh_def)
  from vendor [OF v, THEN conjunct1, THEN mp, OF r1, THEN conjunct1]
  have 1: "turn_off ?h (fresh stove) =
      (Returned (), \<lparr>dev = stove, calls = [TurnOff],
         logged = [LogError ''Failed to turn off device, error: %s'' [''timeout'']]\<rparr>)"
    by (simp add: fresh_def)
  from vendor [OF v, THEN conjunct2, THEN conjunct2, THEN conjunct2, THEN mp, OF r2]
  obtain rec where "update ?h (fresh stove) =
      (Returned False, (fresh stove)\<lparr>dev := stove, calls := calls (fresh stove) @ [Update],
         logged := logged (fresh stove) @ [rec]\<rparr>)" ..
  then have 2: "fst (update ?h (fresh stove)) = Returned False"
    by simp
  have vv: "isinstance (Exn ValueError ''too hot'') ValueError \<or>
      isinstance (Exn ValueError ''too hot'') AguaIOTError"
    by (simp add: isinstance_def)
  have a: "[ATTR_TEMPERATURE \<mapsto> Some (99::real)] ATTR_TEMPERATURE = Some (Some 99) \<and>
      air_temperature (dev (fresh stove)) \<noteq> None \<and>
      ?g (dev (fresh stove)) (SetAirTemperature 99) = (stove, Some (Exn ValueError ''too hot''))"
    by (simp add: raising_def fresh_def stove_def)
  from temp [OF vv, THEN conjunct1, THEN mp, OF a]
  have 3: "set_temperature ?g [ATTR_TEMPERATURE \<mapsto> Some 99] (fresh stove) =
      (Returned (), \<lparr>dev = stove, calls = [SetAirTemperature 99],
         logged = [LogError ''Failed to set temperature, error: %s'' [''too hot'']]\<rparr>)"
    by (simp add: fresh_def)
  have nk: "\<not> isinstance (Exn (OtherException ''KeyError'') ''status'') AguaIOTError"
    by (simp add: isinstance_def)
  have rk: "?k (dev (fresh stove)) TurnOn =
      (stove, Some (Exn (OtherException ''KeyError'') ''status''))"
    by (simp add: raising_def fresh_def)
  from other [OF nk, THEN conjunct2, THEN conjunct1, THEN mp, OF rk, THEN conjunct1]
  have 4: "turn_on ?k (fresh stove) =
      (Raised (Exn (OtherException ''KeyError'') ''status''),
       \<lparr>dev = stove, calls = [TurnOn], logged = []\<rparr>)"
    by (simp add: fresh_def)
  have nb: "\<not> isinstance (Exn ValueError ''bad'') AguaIOTError"
    by (simp add: isinstance_def)
  have rb: "?b (dev (fresh stove)) TurnOff = (stove, Some (Exn ValueError ''bad''))"
    by (simp add: raising_def fresh_def)
  from bad [OF nb, THEN conjunct1, THEN mp, OF rb, THEN conjunct2]
  have 5: "set_hvac_mode ?b HVAC_MODE_OFF (fresh stove) =
      (Raised (Exn ValueError ''bad''), \<lparr>dev = stove, calls = [TurnOff], logged = []\<rparr>)"
    by (simp add: fresh_def)
  from 1 2 3 4 5 show ?thesis by (intro conjI)
qed

end
